theory Spec2Isabelle
  imports Main "HOL-Library.Word"
begin

section \<open>The FireIncident service: model of the source\<close>

text \<open>
  The service has two source files. \<^verbatim>\<open>service/models.py\<close> declares the record class
  \<^verbatim>\<open>FireIncident\<close> with its sixteen columns, \<^verbatim>\<open>serialize\<close>, \<^verbatim>\<open>deserialize\<close> and the
  storage operations; \<^verbatim>\<open>service/routes.py\<close> holds the request handlers. This theory embeds
  both as functions: exceptions are values of a sum type, the committed table is an explicit
  state that the handlers take and return, and the values of a JSON body are a datatype of
  Python values.
\<close>

subsection \<open>Python values and exceptions\<close>

text \<open>
  What \<^verbatim>\<open>request.get_json()\<close> can return, and what the attributes of a record hold:
  \<^verbatim>\<open>deserialize\<close> stores the body's values unchanged, whatever their type. A float is kept
  as the 64 bits of its IEEE double (no arithmetic is ever done on one, values are only
  passed through); a dictionary is a list of key/value pairs read with \<open>map_of\<close>.
\<close>

datatype pyval =
    PNone
  | PBool bool
  | PInt int
  | PFloat "64 word"
  | PStr string
  | PList "pyval list"
  | PDict "(string \<times> pyval) list"

text \<open>
  The exceptions of the two files and of the library calls they make. \<open>KeyError\<close> carries
  the key (\<^verbatim>\<open>error.args[0]\<close>), the others their message.
\<close>

datatype exn =
    KeyError string
  | TypeError string
  | ValueError string
  | AttributeError string
  | DataValidationError string
  | IntegrityError string
  | DataError string

subsection \<open>Timestamps: \<^verbatim>\<open>datetime.isoformat\<close> and \<^verbatim>\<open>datetime.fromisoformat\<close>\<close>

text \<open>
  \<^verbatim>\<open>serialize\<close> renders the two timestamp columns with \<^verbatim>\<open>isoformat()\<close> and
  \<^verbatim>\<open>deserialize\<close> reads them back with \<^verbatim>\<open>datetime.fromisoformat\<close>. Both belong to
  Python's standard library; they are modelled here after its reference implementation.
  A \<open>datetime\<close> carries the calendar fields and, for an aware value, the offset from UTC
  in microseconds (\<open>None\<close> for a naive value): of the \<^verbatim>\<open>tzinfo\<close> object only its offset
  is kept, which is what the ISO string carries.
\<close>

record datetime =
  year :: nat
  month :: nat
  day :: nat
  hour :: nat
  minute :: nat
  second :: nat
  microsecond :: nat
  utcoffset :: "int option"

definition is_leap :: "nat \<Rightarrow> bool" where
  "is_leap yr = (yr mod 4 = 0 \<and> (yr mod 100 \<noteq> 0 \<or> yr mod 400 = 0))"

definition days_in_month :: "nat \<Rightarrow> nat \<Rightarrow> nat" where
  "days_in_month yr mo =
     (if mo = 2 then (if is_leap yr then 29 else 28)
      else if mo = 4 \<or> mo = 6 \<or> mo = 9 \<or> mo = 11 then 30 else 31)"

text \<open>An offset lies strictly between minus and plus 24 hours.\<close>

definition valid_offset :: "int option \<Rightarrow> bool" where
  "valid_offset tz =
     (case tz of None \<Rightarrow> True
      | Some off \<Rightarrow> - 86400000000 < off \<and> off < 86400000000)"

text \<open>The range checks of the \<^verbatim>\<open>datetime\<close> constructor: every datetime object passes them.\<close>

definition valid_datetime :: "datetime \<Rightarrow> bool" where
  "valid_datetime d =
     (1 \<le> year d \<and> year d \<le> 9999 \<and> 1 \<le> month d \<and> month d \<le> 12 \<and>
      1 \<le> day d \<and> day d \<le> days_in_month (year d) (month d) \<and>
      hour d < 24 \<and> minute d < 60 \<and> second d < 60 \<and> microsecond d < 1000000 \<and>
      valid_offset (utcoffset d))"

definition new_datetime ::
  "nat \<Rightarrow> nat \<Rightarrow> nat \<Rightarrow> nat \<Rightarrow> nat \<Rightarrow> nat \<Rightarrow> nat \<Rightarrow> int option \<Rightarrow> exn + datetime" where
  "new_datetime yr mo dy hh mm ss us tz =
     (let d = \<lparr>year = yr, month = mo, day = dy, hour = hh, minute = mm, second = ss,
                microsecond = us, utcoffset = tz\<rparr>
      in if valid_datetime d then Inr d else Inl (ValueError ''datetime field out of range''))"

text \<open>Decimal rendering: \<open>str_nat n\<close> is \<^verbatim>\<open>str(n)\<close>, \<open>fmt_d w n\<close> pads it with zeros to width \<open>w\<close> (the \<^verbatim>\<open>%0wd\<close> of the format strings).\<close>

definition digit_char :: "nat \<Rightarrow> char" where
  "digit_char d = ''0123456789'' ! d"

fun str_nat :: "nat \<Rightarrow> string" where
  "str_nat n = (if n < 10 then [digit_char n] else str_nat (n div 10) @ [digit_char (n mod 10)])"

declare str_nat.simps [simp del]

definition str_int :: "int \<Rightarrow> string" where
  "str_int i = (if i < 0 then CHR ''-'' # str_nat (nat (- i)) else str_nat (nat i))"

definition zfill :: "nat \<Rightarrow> string \<Rightarrow> string" where
  "zfill w s = replicate (w - length s) (CHR ''0'') @ s"

definition fmt_d :: "nat \<Rightarrow> nat \<Rightarrow> string" where
  "fmt_d w n = zfill w (str_nat n)"

text \<open>Reading a run of decimal digits; anything else in the string is an error.\<close>

definition is_digit :: "char \<Rightarrow> bool" where
  "is_digit c = (c \<in> set ''0123456789'')"

definition digit_val :: "char \<Rightarrow> nat" where
  "digit_val c = of_char c - 48"

definition parse_digits :: "string \<Rightarrow> nat option" where
  "parse_digits s =
     (if s = [] then None
      else if list_all is_digit s then Some (foldl (\<lambda>a c. 10 * a + digit_val c) 0 s)
      else None)"

text \<open>
  \<^verbatim>\<open>isoformat()\<close> with its default arguments: \<^verbatim>\<open>YYYY-MM-DDTHH:MM:SS\<close>, then
  \<^verbatim>\<open>.ffffff\<close> when the microsecond is not zero, then for an aware value the offset as
  \<^verbatim>\<open>+HH:MM\<close>, with \<^verbatim>\<open>:SS\<close> and \<^verbatim>\<open>.ffffff\<close> only when they are not zero.
\<close>

definition format_time :: "nat \<Rightarrow> nat \<Rightarrow> nat \<Rightarrow> nat \<Rightarrow> string" where
  "format_time hh mm ss us =
     fmt_d 2 hh @ '':'' @ fmt_d 2 mm @ '':'' @ fmt_d 2 ss @
     (if us = 0 then [] else ''.'' @ fmt_d 6 us)"

definition offset_body :: "nat \<Rightarrow> nat \<Rightarrow> nat \<Rightarrow> nat \<Rightarrow> string" where
  "offset_body hh mm ss us =
     fmt_d 2 hh @ '':'' @ fmt_d 2 mm @
       (if ss \<noteq> 0 \<or> us \<noteq> 0
        then '':'' @ fmt_d 2 ss @ (if us \<noteq> 0 then ''.'' @ fmt_d 6 us else [])
        else [])"

definition format_offset :: "int option \<Rightarrow> string" where
  "format_offset tz =
     (case tz of None \<Rightarrow> []
      | Some off \<Rightarrow>
          (let sign = (if off < 0 then CHR ''-'' else CHR ''+'');
               a = nat \<bar>off\<bar>;
               hh = a div 3600000000;
               r = a mod 3600000000;
               mm = r div 60000000;
               r' = r mod 60000000;
               ss = r' div 1000000;
               us = r' mod 1000000
           in sign # offset_body hh mm ss us))"

definition isoformat :: "datetime \<Rightarrow> string" where
  "isoformat d =
     fmt_d 4 (year d) @ ''-'' @ fmt_d 2 (month d) @ ''-'' @ fmt_d 2 (day d) @ ''T'' @
     format_time (hour d) (minute d) (second d) (microsecond d) @
     format_offset (utcoffset d)"

text \<open>
  \<^verbatim>\<open>fromisoformat\<close> reads the format
  \<^verbatim>\<open>YYYY-MM-DD[*HH[:MM[:SS[.fff[fff]]]][+HH:MM[:SS[.ffffff]]]]\<close>, where \<^verbatim>\<open>*\<close> is any one
  character: the date in the first ten characters, one separator, then the time, cut at
  the first \<^verbatim>\<open>-\<close> (or else the first \<^verbatim>\<open>+\<close>) into the clock time and the offset. The
  fields then go through the constructor's range checks. Every failure is a
  \<^verbatim>\<open>ValueError\<close>; an argument that is not a string is a \<^verbatim>\<open>TypeError\<close>. (Later interpreters
  read more ISO 8601 forms; none reads a string that holds no date.)
\<close>

definition slice :: "nat \<Rightarrow> nat \<Rightarrow> 'a list \<Rightarrow> 'a list" where
  "slice i j s = take (j - i) (drop i s)"

definition parse_isoformat_date :: "string \<Rightarrow> (nat \<times> nat \<times> nat) option" where
  "parse_isoformat_date dtstr =
     (if length dtstr \<noteq> 10 then None
      else (case parse_digits (slice 0 4 dtstr) of None \<Rightarrow> None
      | Some yr \<Rightarrow>
          (if dtstr ! 4 \<noteq> CHR ''-'' then None
           else (case parse_digits (slice 5 7 dtstr) of None \<Rightarrow> None
           | Some mo \<Rightarrow>
               (if dtstr ! 7 \<noteq> CHR ''-'' then None
                else (case parse_digits (slice 8 10 dtstr) of None \<Rightarrow> None
                | Some dy \<Rightarrow> Some (yr, mo, dy)))))))"

text \<open>
  The loop over the up to three two-digit components \<^verbatim>\<open>HH\<close>, \<^verbatim>\<open>MM\<close>, \<^verbatim>\<open>SS\<close>, separated by
  colons; \<open>idx\<close> is the loop counter. It returns the components read and what follows them.
\<close>

fun parse_hh_mm_ss :: "nat \<Rightarrow> string \<Rightarrow> (nat list \<times> string) option" where
  "parse_hh_mm_ss idx (a # b # rest) =
     (case parse_digits [a, b] of None \<Rightarrow> None
      | Some v \<Rightarrow>
          (case rest of [] \<Rightarrow> Some ([v], [])
           | c # rest' \<Rightarrow>
               if idx \<ge> 2 then Some ([v], rest)
               else if c \<noteq> CHR '':'' then None
               else (case parse_hh_mm_ss (Suc idx) rest' of None \<Rightarrow> None
                     | Some (vs, r) \<Rightarrow> Some (v # vs, r))))"
| "parse_hh_mm_ss idx _ = None"

definition parse_hh_mm_ss_ff :: "string \<Rightarrow> (nat \<times> nat \<times> nat \<times> nat) option" where
  "parse_hh_mm_ss_ff tstr =
     (case parse_hh_mm_ss 0 tstr of None \<Rightarrow> None
      | Some (vs, rest) \<Rightarrow>
          (let hh = vs ! 0;
               mm = (if 1 < length vs then vs ! 1 else 0);
               ss = (if 2 < length vs then vs ! 2 else 0)
           in case rest of [] \<Rightarrow> Some (hh, mm, ss, 0)
              | c # frac \<Rightarrow>
                  if c \<noteq> CHR ''.'' then None
                  else if length frac \<noteq> 3 \<and> length frac \<noteq> 6 then None
                  else (case parse_digits frac of None \<Rightarrow> None
                        | Some f \<Rightarrow> Some (hh, mm, ss, if length frac = 3 then f * 1000 else f))))"

fun str_find :: "char \<Rightarrow> string \<Rightarrow> nat option" where
  "str_find c [] = None"
| "str_find c (a # s) = (if a = c then Some 0 else map_option Suc (str_find c s))"

definition parse_isoformat_time ::
  "string \<Rightarrow> ((nat \<times> nat \<times> nat \<times> nat) \<times> int option) option" where
  "parse_isoformat_time tstr =
     (if length tstr < 2 then None
      else
        let tz_pos = (case str_find (CHR ''-'') tstr of Some i \<Rightarrow> Some i
                      | None \<Rightarrow> str_find (CHR ''+'') tstr);
            timestr = (case tz_pos of Some i \<Rightarrow> take i tstr | None \<Rightarrow> tstr)
        in case parse_hh_mm_ss_ff timestr of None \<Rightarrow> None
           | Some time_comps \<Rightarrow>
               (case tz_pos of None \<Rightarrow> Some (time_comps, None)
                | Some i \<Rightarrow>
                    (let tzstr = drop (Suc i) tstr in
                     if length tzstr \<noteq> 5 \<and> length tzstr \<noteq> 8 \<and> length tzstr \<noteq> 15 then None
                     else case parse_hh_mm_ss_ff tzstr of None \<Rightarrow> None
                          | Some (h, m, s, us) \<Rightarrow>
                              (let td = int h * 3600000000 + int m * 60000000
                                         + int s * 1000000 + int us
                               in Some (time_comps,
                                        Some (if tstr ! i = CHR ''-'' then - td else td))))))"

definition fromisoformat_str :: "string \<Rightarrow> exn + datetime" where
  "fromisoformat_str date_string =
     (case parse_isoformat_date (slice 0 10 date_string) of
        None \<Rightarrow> Inl (ValueError (''Invalid isoformat string: '' @ date_string))
      | Some (yr, mo, dy) \<Rightarrow>
          (let tstr = drop 11 date_string in
           if tstr = [] then new_datetime yr mo dy 0 0 0 0 None
           else case parse_isoformat_time tstr of
                  None \<Rightarrow> Inl (ValueError (''Invalid isoformat string: '' @ date_string))
                | Some ((hh, mm, ss, us), tz) \<Rightarrow> new_datetime yr mo dy hh mm ss us tz))"

definition fromisoformat :: "pyval \<Rightarrow> exn + datetime" where
  "fromisoformat v =
     (case v of PStr s \<Rightarrow> fromisoformat_str s
      | _ \<Rightarrow> Inl (TypeError ''fromisoformat: argument must be str''))"

subsection \<open>The record model (\<^verbatim>\<open>service/models.py\<close>)\<close>

text \<open>
  An instance of \<^verbatim>\<open>FireIncident\<close>: one attribute per column. The two timestamp attributes
  hold a \<open>datetime\<close> or nothing; the others hold whatever value was assigned. A fresh
  instance, \<^verbatim>\<open>FireIncident()\<close>, has every attribute unset.
\<close>

record fire_incident =
  object_id :: pyval
  x :: pyval
  y :: pyval
  incident_size :: pyval
  containment_datetime :: "datetime option"
  fire_discovery_datetime :: "datetime option"
  incident_name :: pyval
  incident_type_category :: pyval
  initial_latitude :: pyval
  initial_longitude :: pyval
  poo_city :: pyval
  poo_county :: pyval
  poo_state :: pyval
  fire_cause_id :: pyval
  poo_landowner_category :: pyval
  unique_fire_identifier :: pyval

definition FireIncident :: fire_incident where
  "FireIncident =
     \<lparr>object_id = PNone, x = PNone, y = PNone, incident_size = PNone,
      containment_datetime = None, fire_discovery_datetime = None,
      incident_name = PNone, incident_type_category = PNone,
      initial_latitude = PNone, initial_longitude = PNone,
      poo_city = PNone, poo_county = PNone, poo_state = PNone,
      fire_cause_id = PNone, poo_landowner_category = PNone,
      unique_fire_identifier = PNone\<rparr>"

text \<open>
  \<^verbatim>\<open>serialize\<close>: the dictionary of the sixteen attributes in the order of the source. Calling
  \<^verbatim>\<open>isoformat\<close> on an unset timestamp raises \<^verbatim>\<open>AttributeError\<close>.
\<close>

definition serialize :: "fire_incident \<Rightarrow> exn + pyval" where
  "serialize self =
     (case containment_datetime self of
        None \<Rightarrow> Inl (AttributeError ''NoneType object has no attribute isoformat'')
      | Some cd \<Rightarrow>
          (case fire_discovery_datetime self of
             None \<Rightarrow> Inl (AttributeError ''NoneType object has no attribute isoformat'')
           | Some fd \<Rightarrow>
               Inr (PDict
                 [(''object_id'', object_id self),
                  (''x'', x self),
                  (''y'', y self),
                  (''incident_size'', incident_size self),
                  (''containment_datetime'', PStr (isoformat cd)),
                  (''fire_discovery_datetime'', PStr (isoformat fd)),
                  (''incident_name'', incident_name self),
                  (''incident_type_category'', incident_type_category self),
                  (''initial_latitude'', initial_latitude self),
                  (''initial_longitude'', initial_longitude self),
                  (''poo_city'', poo_city self),
                  (''poo_county'', poo_county self),
                  (''poo_state'', poo_state self),
                  (''fire_cause_id'', fire_cause_id self),
                  (''poo_landowner_category'', poo_landowner_category self),
                  (''unique_fire_identifier'', unique_fire_identifier self)])))"

text \<open>
  The subscript \<^verbatim>\<open>data[key]\<close> with a string key: a dictionary without the key raises
  \<^verbatim>\<open>KeyError\<close>, every other JSON value raises \<^verbatim>\<open>TypeError\<close> (the messages are the
  interpreter's, abridged).
\<close>

definition getitem :: "pyval \<Rightarrow> string \<Rightarrow> exn + pyval" where
  "getitem data key =
     (case data of
        PDict m \<Rightarrow> (case map_of m key of None \<Rightarrow> Inl (KeyError key) | Some v \<Rightarrow> Inr v)
      | PStr s \<Rightarrow> Inl (TypeError ''string indices must be integers'')
      | PList l \<Rightarrow> Inl (TypeError ''list indices must be integers or slices, not str'')
      | PNone \<Rightarrow> Inl (TypeError ''NoneType object is not subscriptable'')
      | PBool b \<Rightarrow> Inl (TypeError ''bool object is not subscriptable'')
      | PInt i \<Rightarrow> Inl (TypeError ''int object is not subscriptable'')
      | PFloat f \<Rightarrow> Inl (TypeError ''float object is not subscriptable''))"

text \<open>
  The body of \<^verbatim>\<open>deserialize\<close> is sixteen assignments, run in order until one raises.
  \<open>assign\<close> is a statement \<^verbatim>\<open>self.attr = data[key]\<close>, \<open>assign_datetime\<close> a statement
  \<^verbatim>\<open>self.attr = datetime.fromisoformat(data[key])\<close>. An exception leaves the handler, so
  the partly assigned instance is not part of the result.
\<close>

definition assign ::
  "pyval \<Rightarrow> string \<Rightarrow> (pyval \<Rightarrow> fire_incident \<Rightarrow> fire_incident) \<Rightarrow> fire_incident
     \<Rightarrow> exn + fire_incident" where
  "assign data key setattr self =
     (case getitem data key of Inl e \<Rightarrow> Inl e | Inr v \<Rightarrow> Inr (setattr v self))"

definition assign_datetime ::
  "pyval \<Rightarrow> string \<Rightarrow> (datetime \<Rightarrow> fire_incident \<Rightarrow> fire_incident) \<Rightarrow> fire_incident
     \<Rightarrow> exn + fire_incident" where
  "assign_datetime data key setattr self =
     (case getitem data key of Inl e \<Rightarrow> Inl e
      | Inr v \<Rightarrow> (case fromisoformat v of Inl e \<Rightarrow> Inl e | Inr d \<Rightarrow> Inr (setattr d self)))"

fun run_stmts :: "('s \<Rightarrow> exn + 's) list \<Rightarrow> 's \<Rightarrow> exn + 's" where
  "run_stmts [] s = Inr s"
| "run_stmts (stmt # stmts) s =
     (case stmt s of Inl e \<Rightarrow> Inl e | Inr s' \<Rightarrow> run_stmts stmts s')"

definition deserialize_body :: "pyval \<Rightarrow> (fire_incident \<Rightarrow> exn + fire_incident) list" where
  "deserialize_body data =
     [assign data ''object_id'' (\<lambda>v self. self\<lparr>object_id := v\<rparr>),
      assign data ''x'' (\<lambda>v self. self\<lparr>x := v\<rparr>),
      assign data ''y'' (\<lambda>v self. self\<lparr>y := v\<rparr>),
      assign data ''incident_size'' (\<lambda>v self. self\<lparr>incident_size := v\<rparr>),
      assign_datetime data ''containment_datetime''
        (\<lambda>d self. self\<lparr>containment_datetime := Some d\<rparr>),
      assign_datetime data ''fire_discovery_datetime''
        (\<lambda>d self. self\<lparr>fire_discovery_datetime := Some d\<rparr>),
      assign data ''incident_name'' (\<lambda>v self. self\<lparr>incident_name := v\<rparr>),
      assign data ''incident_type_category'' (\<lambda>v self. self\<lparr>incident_type_category := v\<rparr>),
      assign data ''initial_latitude'' (\<lambda>v self. self\<lparr>initial_latitude := v\<rparr>),
      assign data ''initial_longitude'' (\<lambda>v self. self\<lparr>initial_longitude := v\<rparr>),
      assign data ''poo_city'' (\<lambda>v self. self\<lparr>poo_city := v\<rparr>),
      assign data ''poo_county'' (\<lambda>v self. self\<lparr>poo_county := v\<rparr>),
      assign data ''poo_state'' (\<lambda>v self. self\<lparr>poo_state := v\<rparr>),
      assign data ''fire_cause_id'' (\<lambda>v self. self\<lparr>fire_cause_id := v\<rparr>),
      assign data ''poo_landowner_category'' (\<lambda>v self. self\<lparr>poo_landowner_category := v\<rparr>),
      assign data ''unique_fire_identifier'' (\<lambda>v self. self\<lparr>unique_fire_identifier := v\<rparr>)]"

text \<open>
  \<^verbatim>\<open>deserialize\<close>: the body inside \<^verbatim>\<open>try\<close>, with the two handlers \<^verbatim>\<open>except KeyError\<close>
  and \<^verbatim>\<open>except TypeError\<close>. Any other exception passes through unchanged.
\<close>

definition deserialize :: "fire_incident \<Rightarrow> pyval \<Rightarrow> exn + fire_incident" where
  "deserialize self data =
     (case run_stmts (deserialize_body data) self of
        Inr self' \<Rightarrow> Inr self'
      | Inl (KeyError k) \<Rightarrow> Inl (DataValidationError (''Invalid FireIncident: missing '' @ k))
      | Inl (TypeError msg) \<Rightarrow>
          Inl (DataValidationError
                (''Invalid FireIncident: body of request contained bad or no data - ''
                 @ ''Error message: '' @ msg))
      | Inl e \<Rightarrow> Inl e)"

text \<open>The keys in the order in which \<open>deserialize_body\<close> reads them, and the two timestamps.\<close>

definition required_keys :: "string list" where
  "required_keys =
     [''object_id'', ''x'', ''y'', ''incident_size'', ''containment_datetime'',
      ''fire_discovery_datetime'', ''incident_name'', ''incident_type_category'',
      ''initial_latitude'', ''initial_longitude'', ''poo_city'', ''poo_county'',
      ''poo_state'', ''fire_cause_id'', ''poo_landowner_category'',
      ''unique_fire_identifier'']"

definition timestamp_keys :: "string list" where
  "timestamp_keys = [''containment_datetime'', ''fire_discovery_datetime'']"

text \<open>
  What reading one field of the body raises, if anything: the subscript, and for a
  timestamp key the call of \<open>fromisoformat\<close> on the value. \<open>stmt_reads\<close> is a property
  used in the proofs, not a function of the program: a statement fails exactly as the read
  of its key does, whatever the instance. \<open>populated\<close> says that both timestamps are set.
\<close>

definition read_field :: "pyval \<Rightarrow> string \<Rightarrow> exn + unit" where
  "read_field data k =
     (case getitem data k of Inl e \<Rightarrow> Inl e
      | Inr v \<Rightarrow>
          if k \<in> set timestamp_keys
          then (case fromisoformat v of Inl e \<Rightarrow> Inl e | Inr d \<Rightarrow> Inr ())
          else Inr ())"

definition stmt_reads :: "pyval \<Rightarrow> string \<Rightarrow> (fire_incident \<Rightarrow> exn + fire_incident) \<Rightarrow> bool" where
  "stmt_reads data k stmt =
     (\<forall>s. case read_field data k of Inl e \<Rightarrow> stmt s = Inl e | Inr u \<Rightarrow> \<exists>s'. stmt s = Inr s')"

definition populated :: "fire_incident \<Rightarrow> bool" where
  "populated r = (containment_datetime r \<noteq> None \<and> fire_discovery_datetime r \<noteq> None)"

subsection \<open>Storage\<close>

text \<open>
  The table behind \<^verbatim>\<open>db.session\<close>, as committed: its rows in storage order and the next
  value of the primary key's sequence. The storage engine is not part of the repository;
  the model keeps what the handlers rely on. A row holds the attribute values of the
  instance that was committed, the primary key \<^verbatim>\<open>object_id\<close> is an integer, taken from the
  instance or (when unset) from the sequence, and a duplicate key is refused. Other column
  checks of the engine (types, lengths) are left out.
\<close>

record database =
  rows :: "fire_incident list"
  next_id :: int

definition FireIncident_all :: "database \<Rightarrow> fire_incident list" where
  "FireIncident_all db = rows db"

definition FireIncident_find :: "int \<Rightarrow> database \<Rightarrow> fire_incident option" where
  "FireIncident_find by_id db = find (\<lambda>r. object_id r = PInt by_id) (rows db)"

definition FireIncident_find_by_poo_county :: "string \<Rightarrow> database \<Rightarrow> fire_incident list" where
  "FireIncident_find_by_poo_county county db =
     filter (\<lambda>r. poo_county r = PStr county) (rows db)"



definition delete :: "fire_incident \<Rightarrow> database \<Rightarrow> database" where
  "delete self db = db\<lparr>rows := filter (\<lambda>r. object_id r \<noteq> object_id self) (rows db)\<rparr>"

subsection \<open>The request handlers (\<^verbatim>\<open>service/routes.py\<close>)\<close>

text \<open>
  What a handler reads of the request: the \<^verbatim>\<open>Content-Type\<close> header if there is one, the
  decoded JSON body (\<open>None\<close> when the body does not decode) and the query parameters.
  A handler ends in a response (status, body, extra headers), in \<^verbatim>\<open>abort(status, message)\<close>
  or with an exception that leaves it; the error handlers that turn the last two into a
  JSON error body are registered outside these two files.
\<close>

record request =
  content_type :: "string option"
  json :: "pyval option"
  args :: "(string \<times> string) list"

datatype body = Json pyval | Text string

datatype outcome =
    Response nat body "(string \<times> string) list"
  | Abort nat string
  | Raised exn

text \<open>
  Modelled from the spec: the module \<^verbatim>\<open>service.common.status\<close> that the handlers import
  is not among the source files; its constants are the standard HTTP status codes named
  in the spec's interface table.
\<close>

definition HTTP_200_OK :: nat where "HTTP_200_OK = 200"
definition HTTP_204_NO_CONTENT :: nat where "HTTP_204_NO_CONTENT = 204"
definition HTTP_404_NOT_FOUND :: nat where "HTTP_404_NOT_FOUND = 404"



definition not_found_message :: "int \<Rightarrow> string" where
  "not_found_message oid =
     ''FireIncident with id '' @ [CHR 0x27] @ str_int oid @ [CHR 0x27] @ '' was not found.''"


text \<open>The list comprehension \<^verbatim>\<open>[fire_incident.serialize() for fire_incident in ...]\<close>.\<close>

fun serialize_all :: "fire_incident list \<Rightarrow> exn + pyval list" where
  "serialize_all [] = Inr []"
| "serialize_all (r # rs) =
     (case serialize r of Inl e \<Rightarrow> Inl e
      | Inr m \<Rightarrow> (case serialize_all rs of Inl e \<Rightarrow> Inl e | Inr ms \<Rightarrow> Inr (m # ms)))"

text \<open>
  \<^verbatim>\<open>GET /fires\<close>. The test \<^verbatim>\<open>if poo_county:\<close> is false for an absent parameter and for
  the empty string.
\<close>

definition list_fire_incidents :: "request \<Rightarrow> database \<Rightarrow> outcome" where
  "list_fire_incidents req db =
     (let county = map_of (args req) ''poo_county'';
          fire_incidents =
            (case county of
               None \<Rightarrow> FireIncident_all db
             | Some v \<Rightarrow>
                 if v = [] then FireIncident_all db
                 else FireIncident_find_by_poo_county v db)
      in case serialize_all fire_incidents of
           Inl e \<Rightarrow> Raised e
         | Inr results \<Rightarrow> Response HTTP_200_OK (Json (PList results)) [])"

text \<open>\<^verbatim>\<open>GET /fires/<int:object_id>\<close>.\<close>

definition get_fire_incidents :: "int \<Rightarrow> database \<Rightarrow> outcome" where
  "get_fire_incidents oid db =
     (case FireIncident_find oid db of
        None \<Rightarrow> Abort HTTP_404_NOT_FOUND (not_found_message oid)
      | Some fire_incident \<Rightarrow>
          (case serialize fire_incident of
             Inl e \<Rightarrow> Raised e
           | Inr m \<Rightarrow> Response HTTP_200_OK (Json m) []))"



text \<open>\<^verbatim>\<open>DELETE /fires/<int:object_id>\<close>.\<close>

definition delete_fire_incidents :: "int \<Rightarrow> database \<Rightarrow> outcome \<times> database" where
  "delete_fire_incidents oid db =
     (let db' = (case FireIncident_find oid db of
                   None \<Rightarrow> db
                 | Some fire_incident \<Rightarrow> delete fire_incident db)
      in (Response HTTP_204_NO_CONTENT (Text []) [], db'))"


subsection \<open>Concrete requests and tables\<close>

text \<open>
  The example body of the spec: every field but \<^verbatim>\<open>object_id\<close>. The floats are the doubles
  1.0, 2.0, 100.0, 34.0 and -118.0. \<open>example_fields_in\<close> is the same body for another
  \<^verbatim>\<open>poo_county\<close>.
\<close>

definition example_fields_in :: "string \<Rightarrow> (string \<times> pyval) list" where
  "example_fields_in county =
     [(''x'', PFloat 0x3FF0000000000000),
      (''y'', PFloat 0x4000000000000000),
      (''incident_size'', PFloat 0x4059000000000000),
      (''containment_datetime'', PStr ''2020-01-01T00:00:00+00:00''),
      (''fire_discovery_datetime'', PStr ''2020-01-01T00:00:00+00:00''),
      (''incident_name'', PStr ''Test Fire''),
      (''incident_type_category'', PStr ''WF''),
      (''initial_latitude'', PFloat 0x4041000000000000),
      (''initial_longitude'', PFloat 0xC05D800000000000),
      (''poo_city'', PStr ''LA''),
      (''poo_county'', PStr county),
      (''poo_state'', PStr ''US-CA''),
      (''fire_cause_id'', PInt 1),
      (''poo_landowner_category'', PStr ''federal''),
      (''unique_fire_identifier'', PStr ''1994-AZCRA-000037'')]"


definition example_body_in :: "string \<Rightarrow> pyval \<Rightarrow> pyval" where
  "example_body_in county oid = PDict ((''object_id'', oid) # example_fields_in county)"

definition example_body :: "pyval \<Rightarrow> pyval" where
  "example_body oid = example_body_in ''Los Angeles'' oid"

definition utc2020 :: datetime where
  "utc2020 = \<lparr>year = 2020, month = 1, day = 1, hour = 0, minute = 0, second = 0,
     microsecond = 0, utcoffset = Some 0\<rparr>"

text \<open>The instance that the example body describes, with a given \<^verbatim>\<open>object_id\<close>.\<close>

definition example_incident_in :: "string \<Rightarrow> pyval \<Rightarrow> fire_incident" where
  "example_incident_in county oid =
     \<lparr>object_id = oid,
      x = PFloat 0x3FF0000000000000,
      y = PFloat 0x4000000000000000,
      incident_size = PFloat 0x4059000000000000,
      containment_datetime = Some utc2020,
      fire_discovery_datetime = Some utc2020,
      incident_name = PStr ''Test Fire'',
      incident_type_category = PStr ''WF'',
      initial_latitude = PFloat 0x4041000000000000,
      initial_longitude = PFloat 0xC05D800000000000,
      poo_city = PStr ''LA'',
      poo_county = PStr county,
      poo_state = PStr ''US-CA'',
      fire_cause_id = PInt 1,
      poo_landowner_category = PStr ''federal'',
      unique_fire_identifier = PStr ''1994-AZCRA-000037''\<rparr>"

definition example_incident :: "pyval \<Rightarrow> fire_incident" where
  "example_incident oid = example_incident_in ''Los Angeles'' oid"



definition query_request :: "(string \<times> string) list \<Rightarrow> request" where
  "query_request params = \<lparr>content_type = None, json = None, args = params\<rparr>"


text \<open>A table with one row, stored under key 7.\<close>

definition one_row_db :: database where
  "one_row_db = \<lparr>rows = [example_incident (PInt 7)], next_id = 1\<rparr>"

text \<open>A table with two rows: one in county Los Angeles, one whose county is the empty string.\<close>

definition two_county_db :: database where
  "two_county_db =
     \<lparr>rows = [example_incident (PInt 1), example_incident_in [] (PInt 2)], next_id = 3\<rparr>"


definition bad_timestamp_body :: pyval where
  "bad_timestamp_body =
     PDict
       [(''object_id'', PInt 1),
        (''x'', PFloat 0x3FF0000000000000),
        (''y'', PFloat 0x4000000000000000),
        (''incident_size'', PFloat 0x4059000000000000),
        (''containment_datetime'', PStr ''not a date''),
        (''fire_discovery_datetime'', PStr ''2020-01-01T00:00:00+00:00''),
        (''incident_name'', PStr ''Test Fire''),
        (''incident_type_category'', PStr ''WF''),
        (''initial_latitude'', PFloat 0x4041000000000000),
        (''initial_longitude'', PFloat 0xC05D800000000000),
        (''poo_city'', PStr ''LA''),
        (''poo_county'', PStr ''Los Angeles''),
        (''poo_state'', PStr ''US-CA''),
        (''fire_cause_id'', PInt 1),
        (''poo_landowner_category'', PStr ''federal''),
        (''unique_fire_identifier'', PStr ''1994-AZCRA-000037'')]"

section \<open>Timestamps survive the ISO string\<close>




lemma str_nat_1: "n < 10 \<Longrightarrow> str_nat n = [digit_char n]"
  by (simp add: str_nat.simps)

lemma str_nat_step: "10 \<le> n \<Longrightarrow> str_nat n = str_nat (n div 10) @ [digit_char (n mod 10)]"
  by (subst str_nat.simps) simp































section \<open>Serialize and deserialize\<close>

lemma serialize_populated:
  assumes "containment_datetime r = Some cd" "fire_discovery_datetime r = Some fd"
  shows "serialize r = Inr (PDict
                 [(''object_id'', object_id r),
                  (''x'', x r),
                  (''y'', y r),
                  (''incident_size'', incident_size r),
                  (''containment_datetime'', PStr (isoformat cd)),
                  (''fire_discovery_datetime'', PStr (isoformat fd)),
                  (''incident_name'', incident_name r),
                  (''incident_type_category'', incident_type_category r),
                  (''initial_latitude'', initial_latitude r),
                  (''initial_longitude'', initial_longitude r),
                  (''poo_city'', poo_city r),
                  (''poo_county'', poo_county r),
                  (''poo_state'', poo_state r),
                  (''fire_cause_id'', fire_cause_id r),
                  (''poo_landowner_category'', poo_landowner_category r),
                  (''unique_fire_identifier'', unique_fire_identifier r)])"
  using assms by (simp add: serialize_def)


lemma isoformat_utc2020: "isoformat utc2020 = ''2020-01-01T00:00:00+00:00''"
  by (simp add: isoformat_def utc2020_def format_time_def format_offset_def offset_body_def
        fmt_d_def zfill_def str_nat_1 str_nat_step digit_char_def)


lemma serialize_example:
  "serialize (example_incident_in county oid) = Inr (example_body_in county oid)"
proof -
  have c: "containment_datetime (example_incident_in county oid) = Some utc2020"
    and f: "fire_discovery_datetime (example_incident_in county oid) = Some utc2020"
    by (simp_all add: example_incident_in_def)
  show ?thesis
    by (simp add: serialize_populated [OF c f] isoformat_utc2020)
       (simp add: example_incident_in_def example_body_in_def example_fields_in_def)
qed





section \<open>Which exception deserialize raises\<close>

lemma stmt_reads_assign:
  "k \<notin> set timestamp_keys \<Longrightarrow> stmt_reads data k (assign data k setattr)"
  by (simp add: stmt_reads_def read_field_def assign_def split: sum.split)

lemma stmt_reads_assign_datetime:
  "k \<in> set timestamp_keys \<Longrightarrow> stmt_reads data k (assign_datetime data k setattr)"
  by (simp add: stmt_reads_def read_field_def assign_datetime_def split: sum.split)

lemma deserialize_body_reads:
  "list_all2 (stmt_reads data) required_keys (deserialize_body data)"
proof -
  have ts: "''containment_datetime'' \<in> set timestamp_keys"
      "''fire_discovery_datetime'' \<in> set timestamp_keys"
    by (simp_all add: timestamp_keys_def)
  have other: "''object_id'' \<notin> set timestamp_keys" "''x'' \<notin> set timestamp_keys"
      "''y'' \<notin> set timestamp_keys" "''incident_size'' \<notin> set timestamp_keys"
      "''incident_name'' \<notin> set timestamp_keys"
      "''incident_type_category'' \<notin> set timestamp_keys"
      "''initial_latitude'' \<notin> set timestamp_keys"
      "''initial_longitude'' \<notin> set timestamp_keys"
      "''poo_city'' \<notin> set timestamp_keys" "''poo_county'' \<notin> set timestamp_keys"
      "''poo_state'' \<notin> set timestamp_keys" "''fire_cause_id'' \<notin> set timestamp_keys"
      "''poo_landowner_category'' \<notin> set timestamp_keys"
      "''unique_fire_identifier'' \<notin> set timestamp_keys"
    by (simp_all add: timestamp_keys_def)
  show ?thesis
    unfolding required_keys_def deserialize_body_def
    by (simp only: list_all2_Cons list_all2_Nil stmt_reads_assign [OF other(1)]
          stmt_reads_assign [OF other(2)] stmt_reads_assign [OF other(3)]
          stmt_reads_assign [OF other(4)] stmt_reads_assign [OF other(5)]
          stmt_reads_assign [OF other(6)] stmt_reads_assign [OF other(7)]
          stmt_reads_assign [OF other(8)] stmt_reads_assign [OF other(9)]
          stmt_reads_assign [OF other(10)] stmt_reads_assign [OF other(11)]
          stmt_reads_assign [OF other(12)] stmt_reads_assign [OF other(13)]
          stmt_reads_assign [OF other(14)] stmt_reads_assign_datetime [OF ts(1)]
          stmt_reads_assign_datetime [OF ts(2)] simp_thms)
qed

lemma stmt_reads_ok:
  assumes "stmt_reads data k stmt" "read_field data k = Inr u"
  shows "\<exists>s'. stmt s = Inr s'"
proof -
  from assms have "\<forall>s. \<exists>s'. stmt s = Inr s'" by (simp add: stmt_reads_def)
  then show ?thesis ..
qed

lemma stmt_reads_fail:
  assumes "stmt_reads data k stmt" "read_field data k = Inl e"
  shows "stmt s = Inl e"
proof -
  from assms have "\<forall>s. stmt s = Inl e" by (simp add: stmt_reads_def)
  then show ?thesis ..
qed


lemma run_stmts_first_failure:
  assumes "list_all2 (stmt_reads data) ks stmts"
      and "ks = before @ k # after"
      and "\<forall>j\<in>set before. read_field data j = Inr ()"
      and "read_field data k = Inl e"
  shows "run_stmts stmts s = Inl e"
  using assms
proof (induction ks stmts arbitrary: s before rule: list_all2_induct)
  case Nil
  then show ?case by simp
next
  case (Cons k' ks stmt stmts)
  show ?case
  proof (cases before)
    case Nil
    with Cons.prems(1) have "k' = k" by simp
    with Cons.hyps(1) have "stmt_reads data k stmt" by simp
    from stmt_reads_fail [OF this Cons.prems(3)] have "stmt s = Inl e" .
    then show ?thesis by simp
  next
    case (Cons b before')
    with Cons.prems(1) have k': "k' = b" and ks: "ks = before' @ k # after" by simp_all
    from Cons.prems(2) Cons k' have r: "read_field data k' = Inr ()"
      and b: "\<forall>j\<in>set before'. read_field data j = Inr ()" by simp_all
    from stmt_reads_ok [OF Cons.hyps(1) r] obtain s1 where s1: "stmt s = Inr s1" ..
    from Cons.IH [OF ks b Cons.prems(3)] have "run_stmts stmts s1 = Inl e" .
    with s1 show ?thesis by simp
  qed
qed

lemma deserialize_body_first_failure:
  assumes "required_keys = before @ k # after"
      and "\<forall>j\<in>set before. read_field data j = Inr ()"
      and "read_field data k = Inl e"
  shows "run_stmts (deserialize_body data) self = Inl e"
  using run_stmts_first_failure [OF deserialize_body_reads assms] .





lemma deserialize_TypeError:
  assumes "run_stmts (deserialize_body data) self = Inl (TypeError msg)"
  shows "deserialize self data =
           Inl (DataValidationError
                 (''Invalid FireIncident: body of request contained bad or no data - ''
                  @ ''Error message: '' @ msg))"
  unfolding deserialize_def assms by simp

lemma deserialize_ValueError:
  assumes "run_stmts (deserialize_body data) self = Inl (ValueError msg)"
  shows "deserialize self data = Inl (ValueError msg)"
  unfolding deserialize_def assms by simp

lemma fromisoformat_str_error:
  assumes "fromisoformat_str s = Inl e"
  shows "\<exists>msg. e = ValueError msg"
  using assms
  by (auto simp: fromisoformat_str_def new_datetime_def Let_def
        split: option.splits prod.splits if_splits)

lemma required_keys_at_object_id:
  "required_keys = [] @ ''object_id'' # tl required_keys"
  by (simp add: required_keys_def)


text \<open>
  C3. The theorem states what the code does with a timestamp that is a string
  \<open>fromisoformat\<close> rejects, when the keys before it are read without error: the
  \<open>ValueError\<close> of \<open>fromisoformat\<close> leaves \<open>deserialize\<close> as it is, since only \<open>KeyError\<close>
  and \<open>TypeError\<close> are caught. It is not a validation error.
\<close>

theorem deserialize_unparseable_timestamp:
  assumes "required_keys = before @ k # after"
      and "\<forall>j\<in>set before. read_field (PDict m) j = Inr ()"
      and "k \<in> set timestamp_keys"
      and "map_of m k = Some (PStr s)"
      and "fromisoformat_str s = Inl e"
  shows "\<exists>msg. e = ValueError msg \<and> deserialize self (PDict m) = Inl (ValueError msg)"
proof -
  from fromisoformat_str_error [OF assms(5)] obtain msg where e: "e = ValueError msg" ..
  from assms(3,4,5) have "read_field (PDict m) k = Inl e"
    by (simp add: read_field_def getitem_def fromisoformat_def)
  from deserialize_body_first_failure [OF assms(1,2) this]
  have "run_stmts (deserialize_body (PDict m)) self = Inl (ValueError msg)"
    unfolding e .
  then have "deserialize self (PDict m) = Inl (ValueError msg)"
    by (rule deserialize_ValueError)
  with e show ?thesis by blast
qed

text \<open>
  C4. For every input that is not a mapping (a string, a number, a boolean, a list, null),
  \<open>deserialize\<close> fails with the validation error for bad or missing data.
\<close>

theorem deserialize_non_mapping:
  assumes "\<forall>m. data \<noteq> PDict m"
  shows "\<exists>msg. deserialize self data =
           Inl (DataValidationError
                 (''Invalid FireIncident: body of request contained bad or no data - ''
                  @ ''Error message: '' @ msg))"
proof -
  from assms obtain msg where "getitem data ''object_id'' = Inl (TypeError msg)"
    by (cases data) (simp_all add: getitem_def)
  then have "read_field data ''object_id'' = Inl (TypeError msg)"
    by (simp add: read_field_def)
  from deserialize_body_first_failure [OF required_keys_at_object_id _ this]
  have "run_stmts (deserialize_body data) self = Inl (TypeError msg)" by simp
  then show ?thesis by (blast dest: deserialize_TypeError)
qed

subsection \<open>Concrete bodies\<close>

lemma required_keys_at_containment:
  "required_keys = [''object_id'', ''x'', ''y'', ''incident_size'']
      @ ''containment_datetime'' # drop 5 required_keys"
  by (simp add: required_keys_def)




lemma fromisoformat_not_a_date:
  "fromisoformat_str ''not a date'' = Inl (ValueError ''Invalid isoformat string: not a date'')"
  by (simp add: fromisoformat_str_def parse_isoformat_date_def slice_def parse_digits_def
        is_digit_def)

theorem deserialize_unparseable_timestamp_witness:
  "deserialize FireIncident bad_timestamp_body
     = Inl (ValueError ''Invalid isoformat string: not a date'')"
proof -
  obtain m where m: "bad_timestamp_body = PDict m"
      and ts: "map_of m ''containment_datetime'' = Some (PStr ''not a date'')"
      and before: "\<forall>j\<in>set [''object_id'', ''x'', ''y'', ''incident_size''].
             read_field (PDict m) j = Inr ()"
    by (simp add: bad_timestamp_body_def read_field_def getitem_def timestamp_keys_def)
  have k: "''containment_datetime'' \<in> set timestamp_keys"
    by (simp add: timestamp_keys_def)
  from deserialize_unparseable_timestamp
         [OF required_keys_at_containment before k ts fromisoformat_not_a_date, of FireIncident]
  show ?thesis unfolding m by simp
qed

theorem deserialize_non_mapping_witness:
  "(\<exists>msg. deserialize FireIncident (PStr ''this is not a dictionary'') =
           Inl (DataValidationError
                 (''Invalid FireIncident: body of request contained bad or no data - ''
                  @ ''Error message: '' @ msg))) \<and>
   (\<exists>msg. deserialize FireIncident (PList [PInt 1, PInt 2]) =
           Inl (DataValidationError
                 (''Invalid FireIncident: body of request contained bad or no data - ''
                  @ ''Error message: '' @ msg))) \<and>
   (\<exists>msg. deserialize FireIncident PNone =
           Inl (DataValidationError
                 (''Invalid FireIncident: body of request contained bad or no data - ''
                  @ ''Error message: '' @ msg)))"
  by (intro conjI; rule deserialize_non_mapping; simp)

section \<open>The handlers\<close>


lemma FireIncident_find_Some:
  assumes "FireIncident_find oid db = Some r"
  shows "object_id r = PInt oid"
  using assms by (auto simp: FireIncident_find_def find_Some_iff)

lemma FireIncident_find_filtered:
  "FireIncident_find oid (db\<lparr>rows := filter (\<lambda>r. object_id r \<noteq> PInt oid) (rows db)\<rparr>) = None"
  by (simp add: FireIncident_find_def find_None_iff)











subsection \<open>Listing and the county filter\<close>

lemma serialize_all_populated:
  assumes "\<forall>r\<in>set rs. populated r"
  shows "\<exists>ms. serialize_all rs = Inr ms \<and> map Inr ms = map serialize rs"
  using assms
proof (induction rs)
  case Nil
  then show ?case by simp
next
  case (Cons r rs)
  then obtain ms where ms: "serialize_all rs = Inr ms" "map Inr ms = map serialize rs" by auto
  from Cons.prems obtain m where m: "serialize r = Inr m"
    by (auto simp: populated_def serialize_def)
  from ms m show ?case by simp
qed

lemma serialize_all_two_county:
  "serialize_all (rows two_county_db)
     = Inr [example_body (PInt 1), example_body_in [] (PInt 2)]"
  by (simp add: two_county_db_def example_incident_def example_body_def serialize_example)

theorem list_by_county_counterexample:
  "list_fire_incidents (query_request [(''poo_county'', [])]) two_county_db
     = Response HTTP_200_OK (Json (PList [example_body (PInt 1), example_body_in [] (PInt 2)])) []
   \<and> getitem (example_body (PInt 1)) ''poo_county'' = Inr (PStr ''Los Angeles'')
   \<and> FireIncident_find_by_poo_county [] two_county_db = [example_incident_in [] (PInt 2)]"
proof -
  have "list_fire_incidents (query_request [(''poo_county'', [])]) two_county_db
     = Response HTTP_200_OK (Json (PList [example_body (PInt 1), example_body_in [] (PInt 2)])) []"
    by (simp add: list_fire_incidents_def query_request_def FireIncident_all_def
          serialize_all_two_county)
  moreover have "getitem (example_body (PInt 1)) ''poo_county'' = Inr (PStr ''Los Angeles'')"
    by (simp add: getitem_def example_body_def example_body_in_def example_fields_in_def)
  moreover have "FireIncident_find_by_poo_county [] two_county_db
                   = [example_incident_in [] (PInt 2)]"
    by (simp add: FireIncident_find_by_poo_county_def two_county_db_def example_incident_def
          example_incident_in_def)
  ultimately show ?thesis by simp
qed

text \<open>
  C6, as amended. For every table and every filter value \<open>V\<close> that is not the empty
  string, \<^verbatim>\<open>GET /fires?poo_county=V\<close> serializes exactly the stored records whose
  \<^verbatim>\<open>poo_county\<close> is the string \<open>V\<close>, in storage order, and no others; when every stored
  record has its two timestamps the answer is 200 with that sequence (the empty sequence
  when no record matches).
\<close>

theorem list_by_county:
  assumes "map_of (args req) ''poo_county'' = Some V" and "V \<noteq> []"
  shows "list_fire_incidents req db
           = (case serialize_all (filter (\<lambda>r. poo_county r = PStr V) (rows db)) of
                Inl e \<Rightarrow> Raised e
              | Inr results \<Rightarrow> Response HTTP_200_OK (Json (PList results)) [])
         \<and> ((\<forall>r\<in>set (rows db). populated r) \<longrightarrow>
              (\<exists>results. list_fire_incidents req db
                            = Response HTTP_200_OK (Json (PList results)) []
                 \<and> map Inr results
                       = map serialize (filter (\<lambda>r. poo_county r = PStr V) (rows db))))"
proof -
  have l: "list_fire_incidents req db
           = (case serialize_all (filter (\<lambda>r. poo_county r = PStr V) (rows db)) of
                Inl e \<Rightarrow> Raised e
              | Inr results \<Rightarrow> Response HTTP_200_OK (Json (PList results)) [])"
    using assms by (simp add: list_fire_incidents_def FireIncident_find_by_poo_county_def)
  have "\<exists>results. list_fire_incidents req db = Response HTTP_200_OK (Json (PList results)) []
          \<and> map Inr results = map serialize (filter (\<lambda>r. poo_county r = PStr V) (rows db))"
    if "\<forall>r\<in>set (rows db). populated r"
  proof -
    from that have "\<forall>r\<in>set (filter (\<lambda>r. poo_county r = PStr V) (rows db)). populated r"
      by simp
    from serialize_all_populated [OF this] obtain ms
      where "serialize_all (filter (\<lambda>r. poo_county r = PStr V) (rows db)) = Inr ms"
        and "map Inr ms = map serialize (filter (\<lambda>r. poo_county r = PStr V) (rows db))"
      by blast
    then show ?thesis by (simp add: l)
  qed
  with l show ?thesis by blast
qed

theorem list_by_county_witness:
  "list_fire_incidents (query_request [(''poo_county'', ''Los Angeles'')]) two_county_db
     = Response HTTP_200_OK (Json (PList [example_body (PInt 1)])) []
   \<and> list_fire_incidents (query_request [(''poo_county'', ''los angeles'')]) two_county_db
     = Response HTTP_200_OK (Json (PList [])) []"
proof -
  have a: "map_of (args (query_request [(''poo_county'', ''Los Angeles'')])) ''poo_county''
             = Some ''Los Angeles''"
    and b: "map_of (args (query_request [(''poo_county'', ''los angeles'')])) ''poo_county''
             = Some ''los angeles''"
    by (simp_all add: query_request_def)
  have f1: "filter (\<lambda>r. poo_county r = PStr ''Los Angeles'') (rows two_county_db)
              = [example_incident (PInt 1)]"
    and f2: "filter (\<lambda>r. poo_county r = PStr ''los angeles'') (rows two_county_db) = []"
    by (simp_all add: two_county_db_def example_incident_def example_incident_in_def)
  have s: "serialize (example_incident (PInt 1)) = Inr (example_body (PInt 1))"
    by (simp add: example_incident_def example_body_def serialize_example)
  from list_by_county [OF a, of two_county_db] list_by_county [OF b, of two_county_db]
  show ?thesis by (simp add: f1 f2 s)
qed

text \<open>
  C10. When the query parameter \<^verbatim>\<open>poo_county\<close> is present and empty, \<^verbatim>\<open>GET /fires\<close> answers
  as it does without the parameter: with the whole collection.
\<close>

theorem list_with_empty_county:
  assumes "map_of (args req) ''poo_county'' = Some []"
  shows "list_fire_incidents req db = list_fire_incidents (req\<lparr>args := []\<rparr>) db
         \<and> list_fire_incidents req db
             = (case serialize_all (FireIncident_all db) of
                  Inl e \<Rightarrow> Raised e
                | Inr results \<Rightarrow> Response HTTP_200_OK (Json (PList results)) [])"
  using assms by (simp add: list_fire_incidents_def)

theorem list_with_empty_county_witness:
  "list_fire_incidents (query_request [(''poo_county'', [])]) two_county_db
     = list_fire_incidents (query_request []) two_county_db
   \<and> list_fire_incidents (query_request [(''poo_county'', [])]) two_county_db
     = Response HTTP_200_OK (Json (PList [example_body (PInt 1), example_body_in [] (PInt 2)])) []"
proof -
  have a: "map_of (args (query_request [(''poo_county'', [])])) ''poo_county'' = Some []"
    by (simp add: query_request_def)
  have q: "(query_request [(''poo_county'', [])])\<lparr>args := []\<rparr> = query_request []"
    by (simp add: query_request_def)
  have "list_fire_incidents (query_request []) two_county_db
     = Response HTTP_200_OK (Json (PList [example_body (PInt 1), example_body_in [] (PInt 2)])) []"
    by (simp add: list_fire_incidents_def query_request_def FireIncident_all_def
          serialize_all_two_county)
  moreover from list_with_empty_county [OF a, of two_county_db]
  have "list_fire_incidents (query_request [(''poo_county'', [])]) two_county_db
     = list_fire_incidents (query_request []) two_county_db"
    unfolding q by (rule conjunct1)
  ultimately show ?thesis by simp
qed

subsection \<open>Update keeps the identity\<close>






subsection \<open>Delete, and requests that fail validation\<close>

lemma find_after_delete:
  "FireIncident_find oid (snd (delete_fire_incidents oid db)) = None"
proof (cases "FireIncident_find oid db")
  case None
  then show ?thesis by (simp add: delete_fire_incidents_def)
next
  case (Some r)
  from FireIncident_find_Some [OF Some] have "object_id r = PInt oid" .
  with Some show ?thesis
    by (simp add: delete_fire_incidents_def delete_def FireIncident_find_filtered)
qed

text \<open>
  C8. \<^verbatim>\<open>DELETE /fires/<object_id>\<close> answers 204 with an empty body whether or not a record
  has the id; after it a \<^verbatim>\<open>GET\<close> of the id answers 404, and a second \<^verbatim>\<open>DELETE\<close> answers
  204 again and changes nothing.
\<close>

theorem delete_always_no_content:
  "fst (delete_fire_incidents oid db) = Response HTTP_204_NO_CONTENT (Text []) []
   \<and> get_fire_incidents oid (snd (delete_fire_incidents oid db))
        = Abort HTTP_404_NOT_FOUND (not_found_message oid)
   \<and> delete_fire_incidents oid (snd (delete_fire_incidents oid db))
        = (Response HTTP_204_NO_CONTENT (Text []) [], snd (delete_fire_incidents oid db))"
proof -
  have "fst (delete_fire_incidents oid db) = Response HTTP_204_NO_CONTENT (Text []) []"
    by (simp add: delete_fire_incidents_def Let_def)
  moreover have "get_fire_incidents oid (snd (delete_fire_incidents oid db))
        = Abort HTTP_404_NOT_FOUND (not_found_message oid)"
    by (simp add: get_fire_incidents_def find_after_delete)
  moreover have "delete_fire_incidents oid (snd (delete_fire_incidents oid db))
        = (Response HTTP_204_NO_CONTENT (Text []) [], snd (delete_fire_incidents oid db))"
    using find_after_delete [of oid db]
    by (simp add: delete_fire_incidents_def [of oid "snd (delete_fire_incidents oid db)"])
  ultimately show ?thesis by simp
qed

theorem delete_always_no_content_witness:
  "FireIncident_find 7 one_row_db = Some (example_incident (PInt 7))
   \<and> fst (delete_fire_incidents 7 one_row_db) = Response HTTP_204_NO_CONTENT (Text []) []
   \<and> get_fire_incidents 7 (snd (delete_fire_incidents 7 one_row_db))
        = Abort HTTP_404_NOT_FOUND (not_found_message 7)
   \<and> fst (delete_fire_incidents 7 (snd (delete_fire_incidents 7 one_row_db)))
        = Response HTTP_204_NO_CONTENT (Text []) []"
proof -
  have "FireIncident_find 7 one_row_db = Some (example_incident (PInt 7))"
    by (simp add: FireIncident_find_def one_row_db_def example_incident_def
          example_incident_in_def)
  moreover note delete_always_no_content [of 7 one_row_db]
  ultimately show ?thesis by simp
qed



end
